theory Spec2Isabelle
  imports Main "HOL-Library.Word"
begin

unbundle bit_operations_syntax

section \<open>Blocks and delegate allocators\<close>

text \<open>
  \<open>size_t\<close> and \<open>void *\<close> are 64-bit machine words; \<open>nullptr\<close> is the word \<open>0\<close>.
  The template parameters \<open>PoolSize\<close> and \<open>NumberOfBatchAllocations\<close> of
  \<open>freelist_base\<close> are \<open>unsigned\<close>, that is 32-bit words.
\<close>

type_synonym size_t = "64 word"
type_synonym pointer = "64 word"
type_synonym unsigned = "32 word"

text \<open>
  Modelled from the spec: the declaration of \<open>alb::block\<close> lives in \<open>allocator_base.hpp\<close>,
  which is not among the sources. A block is a pointer with a length; the empty block has
  a null pointer and length 0; a block converts to \<open>true\<close> when it is not empty, which is
  read off its length.
\<close>

record block =
  ptr :: pointer
  length_b :: size_t

definition empty_block :: block where
  "empty_block = \<lparr>ptr = 0, length_b = 0\<rparr>"

definition block_ok :: "block \<Rightarrow> bool" where
  "block_ok b = (length_b b \<noteq> 0)"

definition reset :: "block \<Rightarrow> block" where
  "reset b = empty_block"

text \<open>The Block invariant of the data model: the pointer is null exactly when the length is 0.\<close>

definition block_invariant :: "block \<Rightarrow> bool" where
  "block_invariant b = ((ptr b = 0) = (length_b b = 0))"

text \<open>
  The delegate is a template parameter of both allocators. It is taken as a parameter
  here too: a state type \<open>'d\<close> with the operations of the capability contract, each
  returning the delegate's new state. \<open>deallocate\<close> takes the block by reference, so
  it returns the block as the delegate leaves it.
\<close>

record 'd allocator =
  alloc_d :: "'d \<Rightarrow> size_t \<Rightarrow> block \<times> 'd"
  dealloc_d :: "'d \<Rightarrow> block \<Rightarrow> block \<times> 'd"
  supports_truncated_deallocation :: bool

text \<open>The calls an allocator issues to its delegate, in order.\<close>

datatype delegate_call = DAllocate size_t | DDeallocate block

section \<open>NoAtomic (alb/internal/noatomic.hpp)\<close>

record 'a NoAtomic =
  value_n :: 'a

definition load :: "'a NoAtomic \<Rightarrow> 'a" where
  "load a = value_n a"

definition assign :: "'a NoAtomic \<Rightarrow> 'a \<Rightarrow> 'a NoAtomic" where
  "assign a v = a\<lparr>value_n := v\<rparr>"

text \<open>
  \<open>bool compare_exchange_strong(T &, T v)\<close>: the first parameter is an unnamed reference.
  The result is the returned flag, the object afterwards, and the referenced
  expected-value variable afterwards.
\<close>

definition compare_exchange_strong :: "'a NoAtomic \<Rightarrow> 'a \<Rightarrow> 'a \<Rightarrow> bool \<times> 'a NoAtomic \<times> 'a" where
  "compare_exchange_strong a expected v = (True, a\<lparr>value_n := v\<rparr>, expected)"

section \<open>The free-list allocator (alb/freelist.hpp)\<close>

text \<open>
  Modelled from the spec: the pool type \<open>internal::stack<void *, PoolSize>\<close>
  (\<open>internal/stack.hpp\<close>, and \<open>boost::lockfree::stack\<close> in the shared configuration)
  is not among the sources. It is a fixed-capacity stack of pointers: \<open>push\<close> returns
  false and stores nothing when the stack is at capacity, \<open>pop\<close> returns false when it is
  empty and otherwise removes the entry pushed last.
\<close>

definition push :: "nat \<Rightarrow> pointer \<Rightarrow> pointer list \<Rightarrow> pointer list option" where
  "push capacity p xs = (if length xs < capacity then Some (p # xs) else None)"

definition pop :: "pointer list \<Rightarrow> (pointer \<times> pointer list) option" where
  "pop xs = (case xs of [] \<Rightarrow> None | p # ps \<Rightarrow> Some (p, ps))"

text \<open>
  The template parameters and the two bounds, which are fixed once the allocator is in
  use. \<open>assertions\<close> tells whether \<open>BOOST_ASSERT\<close> is compiled in (a debug build) or
  expands to nothing (\<open>NDEBUG\<close>).
\<close>

record freelist_config =
  lowerBound :: size_t
  upperBound :: size_t
  PoolSize :: unsigned
  NumberOfBatchAllocations :: unsigned
  assertions :: bool

text \<open>
  The members \<open>_root\<close> (the pool) and \<open>_allocator\<close> (the delegate), and the log of the
  calls made to the delegate so far.
\<close>

record 'd freelist_state =
  root :: "pointer list"
  allocator_st :: 'd
  calls :: "delegate_call list"

datatype error = AssertionFailed

definition delegate_allocate ::
  "('d, 'm) allocator_scheme \<Rightarrow> 'd freelist_state \<Rightarrow> size_t \<Rightarrow> block \<times> 'd freelist_state" where
  "delegate_allocate A s n =
     (let (b, d) = alloc_d A (allocator_st s) n
      in (b, s\<lparr>allocator_st := d, calls := calls s @ [DAllocate n]\<rparr>))"

definition delegate_deallocate ::
  "('d, 'm) allocator_scheme \<Rightarrow> 'd freelist_state \<Rightarrow> block \<Rightarrow> block \<times> 'd freelist_state" where
  "delegate_deallocate A s b =
     (let (b', d) = dealloc_d A (allocator_st s) b
      in (b', s\<lparr>allocator_st := d, calls := calls s @ [DDeallocate b]\<rparr>))"

text \<open>
  The loop of the branch for a delegate with truncated deallocation,
  \<open>for (size_t i = 1; i < NumberOfBatchAllocations; i++)\<close>: each sub-block address
  \<open>base + i * blockSize\<close> is pushed; when a push fails, \<open>BOOST_ASSERT(false)\<close> stops a
  debug build, and a release build hands the sub-block to the delegate.
\<close>

function batch_push ::
  "freelist_config \<Rightarrow> ('d, 'm) allocator_scheme \<Rightarrow> pointer \<Rightarrow> size_t \<Rightarrow> nat \<Rightarrow>
   'd freelist_state \<Rightarrow> error + 'd freelist_state" where
  "batch_push c A base blockSize i s =
     (if i < unat (NumberOfBatchAllocations c) then
        (case push (unat (PoolSize c)) (base + of_nat i * blockSize) (root s) of
           Some r \<Rightarrow> batch_push c A base blockSize (Suc i) (s\<lparr>root := r\<rparr>)
         | None \<Rightarrow>
             if assertions c then Inl AssertionFailed
             else batch_push c A base blockSize (Suc i)
                    (snd (delegate_deallocate A s
                       \<lparr>ptr = base + of_nat i * blockSize, length_b = blockSize\<rparr>)))
      else Inr s)"
  by pat_completeness auto
termination
  by (relation "measure (\<lambda>(c, A, base, blockSize, i, s). unat (NumberOfBatchAllocations c) - i)") auto

declare batch_push.simps [simp del]

text \<open>
  The loop of the other branch,
  \<open>for (size_t i = 0; i < NumberOfBatchAllocations - 1; i++)\<close>, where the subtraction is
  on \<open>unsigned\<close>: each round allocates one block from the delegate and pushes its
  pointer; when a push fails the loop returns that block (\<open>Some\<close>).
\<close>

function fill_loop ::
  "freelist_config \<Rightarrow> ('d, 'm) allocator_scheme \<Rightarrow> size_t \<Rightarrow> nat \<Rightarrow>
   'd freelist_state \<Rightarrow> block option \<times> 'd freelist_state" where
  "fill_loop c A blockSize i s =
     (if i < unat (NumberOfBatchAllocations c - 1) then
        (let (b, s1) = delegate_allocate A s blockSize
         in case push (unat (PoolSize c)) (ptr b) (root s1) of
              Some r \<Rightarrow> fill_loop c A blockSize (Suc i) (s1\<lparr>root := r\<rparr>)
            | None \<Rightarrow> (Some b, s1))
      else (None, s))"
  by pat_completeness auto
termination
  by (relation "measure (\<lambda>(c, A, blockSize, i, s). unat (NumberOfBatchAllocations c - 1) - i)") auto

declare fill_loop.simps [simp del]

definition freelist_allocate ::
  "freelist_config \<Rightarrow> ('d, 'm) allocator_scheme \<Rightarrow> 'd freelist_state \<Rightarrow> size_t \<Rightarrow>
   error + (block \<times> 'd freelist_state)" where
  "freelist_allocate c A s n =
     (if assertions c \<and> (lowerBound c = - 1 \<or> upperBound c = - 1) then Inl AssertionFailed
      else if lowerBound c \<le> n \<and> n \<le> upperBound c then
        (case pop (root s) of
           Some (freeBlock, rest) \<Rightarrow>
             Inr (\<lparr>ptr = freeBlock, length_b = upperBound c\<rparr>, s\<lparr>root := rest\<rparr>)
         | None \<Rightarrow>
             (let blockSize = upperBound c in
              if supports_truncated_deallocation A then
                (let (batchAllocatedBlocks, s1) =
                       delegate_allocate A s (blockSize * ucast (NumberOfBatchAllocations c))
                 in if block_ok batchAllocatedBlocks then
                      (case batch_push c A (ptr batchAllocatedBlocks) blockSize 1 s1 of
                         Inl e \<Rightarrow> Inl e
                       | Inr s2 \<Rightarrow> Inr (\<lparr>ptr = ptr batchAllocatedBlocks, length_b = blockSize\<rparr>, s2))
                    else Inr (delegate_allocate A s1 blockSize))
              else
                (case fill_loop c A blockSize 0 s of
                   (Some b, s1) \<Rightarrow> Inr (b, s1)
                 | (None, s1) \<Rightarrow> Inr (delegate_allocate A s1 blockSize))))
      else Inr (empty_block, s))"

definition freelist_owns :: "freelist_config \<Rightarrow> block \<Rightarrow> bool" where
  "freelist_owns c b = (block_ok b \<and> lowerBound c \<le> length_b b \<and> length_b b \<le> upperBound c)"

text \<open>\<open>deallocate\<close> takes the block by reference: the result is the caller's block afterwards.\<close>

definition freelist_deallocate ::
  "freelist_config \<Rightarrow> ('d, 'm) allocator_scheme \<Rightarrow> 'd freelist_state \<Rightarrow> block \<Rightarrow>
   block \<times> 'd freelist_state" where
  "freelist_deallocate c A s b =
     (if block_ok b \<and> freelist_owns c b then
        (case push (unat (PoolSize c)) (ptr b) (root s) of
           Some r \<Rightarrow> (reset b, s\<lparr>root := r\<rparr>)
         | None \<Rightarrow> delegate_deallocate A s b)
      else (b, s))"

text \<open>A freshly constructed free-list allocator: an empty pool over the delegate's state.\<close>

definition freelist_init :: "'d \<Rightarrow> 'd freelist_state" where
  "freelist_init d = \<lparr>root = [], allocator_st = d, calls = []\<rparr>"

section \<open>The statistics allocator (include/ALBAllocatorWithStats.h)\<close>

subsection \<open>The flags of \<open>StatsOptions\<close>\<close>

definition StatsOptions_numOwns :: unsigned where "StatsOptions_numOwns = push_bit 0 1"
definition StatsOptions_numAllocate :: unsigned where "StatsOptions_numAllocate = push_bit 1 1"
definition StatsOptions_numAllocateOK :: unsigned where "StatsOptions_numAllocateOK = push_bit 2 1"
definition StatsOptions_numExpand :: unsigned where "StatsOptions_numExpand = push_bit 3 1"
definition StatsOptions_numExpandOK :: unsigned where "StatsOptions_numExpandOK = push_bit 4 1"
definition StatsOptions_numReallocate :: unsigned where "StatsOptions_numReallocate = push_bit 5 1"
definition StatsOptions_numReallocateOK :: unsigned where "StatsOptions_numReallocateOK = push_bit 6 1"
definition StatsOptions_numReallocateInPlace :: unsigned where "StatsOptions_numReallocateInPlace = push_bit 7 1"
definition StatsOptions_numDeallocate :: unsigned where "StatsOptions_numDeallocate = push_bit 8 1"
definition StatsOptions_numDeallocateAll :: unsigned where "StatsOptions_numDeallocateAll = push_bit 9 1"
definition StatsOptions_bytesAllocated :: unsigned where "StatsOptions_bytesAllocated = push_bit 10 1"
definition StatsOptions_bytesDeallocated :: unsigned where "StatsOptions_bytesDeallocated = push_bit 11 1"
definition StatsOptions_bytesExpanded :: unsigned where "StatsOptions_bytesExpanded = push_bit 12 1"
definition StatsOptions_bytesContracted :: unsigned where "StatsOptions_bytesContracted = push_bit 13 1"
definition StatsOptions_bytesMoved :: unsigned where "StatsOptions_bytesMoved = push_bit 14 1"
definition StatsOptions_bytesSlack :: unsigned where "StatsOptions_bytesSlack = push_bit 15 1"
definition StatsOptions_bytesHighTide :: unsigned where "StatsOptions_bytesHighTide = push_bit 16 1"
definition StatsOptions_callerSize :: unsigned where "StatsOptions_callerSize = push_bit 17 1"
definition StatsOptions_callerFile :: unsigned where "StatsOptions_callerFile = push_bit 18 1"
definition StatsOptions_callerFunction :: unsigned where "StatsOptions_callerFunction = push_bit 19 1"
definition StatsOptions_callerLine :: unsigned where "StatsOptions_callerLine = push_bit 20 1"
definition StatsOptions_callerTime :: unsigned where "StatsOptions_callerTime = push_bit 21 1"

subsection \<open>State\<close>

text \<open>
  \<open>struct AllocationInfo\<close>. The two \<open>const char *\<close> fields are an optional string, the
  \<open>int\<close> a 32-bit word, the time point a number; the two links are addresses.
\<close>

record AllocationInfo =
  callerSize :: size_t
  callerFile :: "string option"
  callerFunction :: "string option"
  callerLine :: "32 word"
  callerTime :: nat
  previous_p :: pointer
  next_p :: pointer

text \<open>
  The members of \<open>AllocatorWithStats\<close>: the internal delegate \<open>_allocator\<close>, the head
  \<open>_root\<close> of the list of allocation records, and the seventeen counters. The records
  live in the memory in front of the blocks; \<open>infos\<close> is that memory, read and written
  by address.
\<close>

record 'd stats_state =
  allocator_s :: 'd
  info_root :: pointer
  infos :: "pointer \<Rightarrow> AllocationInfo"
  numOwns :: size_t
  numAllocate :: size_t
  numAllocateOK :: size_t
  numExpand :: size_t
  numExpandOK :: size_t
  numReallocate :: size_t
  numReallocateOK :: size_t
  numReallocateInPlace :: size_t
  numDeallocate :: size_t
  numDeallocateAll :: size_t
  bytesAllocated :: size_t
  bytesDeallocated :: size_t
  bytesExpanded :: size_t
  bytesContracted :: size_t
  bytesMoved :: size_t
  bytesSlack :: size_t
  bytesHighTide :: size_t

text \<open>
  Modelled from the spec: \<open>AffixExtractor::prefix\<close> and the \<open>AffixAllocator\<close> of
  \<open>ALBAffixAllocator.h\<close>, which is not among the sources. The internal delegate
  \<open>_allocator\<close> is either the configured allocator or that allocator wrapped by the
  affix allocator, which stores a header in front of every block; \<open>prefix\<close> gives the
  address of the header of a block. Here it is a parameter: the operations of the
  capability contract, extended by \<open>prefix\<close>.
\<close>

record 'd stats_delegate = "'d allocator" +
  realloc_d :: "'d \<Rightarrow> block \<Rightarrow> size_t \<Rightarrow> bool \<times> block \<times> 'd"
  expand_d :: "'d \<Rightarrow> block \<Rightarrow> size_t \<Rightarrow> bool \<times> block \<times> 'd"
  owns_d :: "'d \<Rightarrow> block \<Rightarrow> bool"
  prefix_d :: "'d \<Rightarrow> block \<Rightarrow> pointer"

text \<open>The constructor: no record, every counter 0. The memory is whatever it is.\<close>

definition AllocatorWithStats :: "'d \<Rightarrow> (pointer \<Rightarrow> AllocationInfo) \<Rightarrow> 'd stats_state" where
  "AllocatorWithStats d mem =
     \<lparr>allocator_s = d, info_root = 0, infos = mem,
      numOwns = 0, numAllocate = 0, numAllocateOK = 0, numExpand = 0, numExpandOK = 0,
      numReallocate = 0, numReallocateOK = 0, numReallocateInPlace = 0, numDeallocate = 0,
      numDeallocateAll = 0, bytesAllocated = 0, bytesDeallocated = 0, bytesExpanded = 0,
      bytesContracted = 0, bytesMoved = 0, bytesSlack = 0, bytesHighTide = 0\<rparr>"

subsection \<open>Helpers\<close>

definition HasPerAllocationState :: "unsigned \<Rightarrow> bool" where
  "HasPerAllocationState Flags =
     (Flags AND (StatsOptions_callerTime OR StatsOptions_callerFile OR StatsOptions_callerLine) \<noteq> 0)"

definition up :: "unsigned \<Rightarrow> unsigned \<Rightarrow> size_t \<Rightarrow> size_t" where
  "up Flags option v = (if Flags AND option \<noteq> 0 then v + 1 else v)"

definition upOK :: "unsigned \<Rightarrow> unsigned \<Rightarrow> size_t \<Rightarrow> bool \<Rightarrow> size_t" where
  "upOK Flags option v ok = (if Flags AND option \<noteq> 0 \<and> ok then v + 1 else v)"

definition add :: "unsigned \<Rightarrow> unsigned \<Rightarrow> size_t \<Rightarrow> size_t \<Rightarrow> size_t" where
  "add Flags option v delta = (if Flags AND option \<noteq> 0 then v + delta else v)"

definition set_opt :: "unsigned \<Rightarrow> unsigned \<Rightarrow> 'a \<Rightarrow> 'a \<Rightarrow> 'a" where
  "set_opt Flags option v t = (if Flags AND option \<noteq> 0 then t else v)"

definition updateHighTide :: "unsigned \<Rightarrow> 'd stats_state \<Rightarrow> 'd stats_state" where
  "updateHighTide Flags s =
     (if Flags AND StatsOptions_bytesHighTide \<noteq> 0 then
        (let currentlyAllocated = bytesAllocated s - bytesDeallocated s
         in if bytesHighTide s < currentlyAllocated
            then s\<lparr>bytesHighTide := currentlyAllocated\<rparr> else s)
      else s)"

text \<open>A write through a pointer to a record: \<open>p->field = v\<close>.\<close>

definition store :: "pointer \<Rightarrow> (AllocationInfo \<Rightarrow> AllocationInfo) \<Rightarrow> 'd stats_state \<Rightarrow> 'd stats_state" where
  "store p f s = s\<lparr>infos := (infos s)(p := f (infos s p))\<rparr>"

subsection \<open>Operations\<close>

text \<open>
  \<open>allocate(n, file, function, line)\<close>; \<open>now\<close> is what \<open>system_clock::now()\<close> returns
  during the call.
\<close>

definition stats_allocate ::
  "unsigned \<Rightarrow> ('d, 'm) stats_delegate_scheme \<Rightarrow> 'd stats_state \<Rightarrow> size_t \<Rightarrow>
   string option \<Rightarrow> string option \<Rightarrow> 32 word \<Rightarrow> nat \<Rightarrow> block \<times> 'd stats_state" where
  "stats_allocate Flags A s n file function line now =
     (let (result, d) = alloc_d A (allocator_s s) n;
          s = s\<lparr>allocator_s := d\<rparr>;
          s = s\<lparr>numAllocate := up Flags StatsOptions_numAllocate (numAllocate s)\<rparr>;
          s = s\<lparr>numAllocateOK :=
                 upOK Flags StatsOptions_numAllocateOK (numAllocateOK s) (0 < n \<and> block_ok result)\<rparr>;
          s = s\<lparr>bytesAllocated :=
                 add Flags StatsOptions_bytesAllocated (bytesAllocated s) (length_b result)\<rparr>;
          s = updateHighTide Flags s
      in if block_ok result \<and> HasPerAllocationState Flags then
           (let stat = prefix_d A (allocator_s s) result;
                s = store stat (\<lambda>i. i\<lparr>callerSize := set_opt Flags StatsOptions_callerSize (callerSize i) n\<rparr>) s;
                s = store stat (\<lambda>i. i\<lparr>callerFile := set_opt Flags StatsOptions_callerFile (callerFile i) file\<rparr>) s;
                s = store stat (\<lambda>i. i\<lparr>callerFunction :=
                                        set_opt Flags StatsOptions_callerFunction (callerFunction i) function\<rparr>) s;
                s = store stat (\<lambda>i. i\<lparr>callerLine := set_opt Flags StatsOptions_callerLine (callerLine i) line\<rparr>) s;
                s = store stat (\<lambda>i. i\<lparr>callerTime := set_opt Flags StatsOptions_callerTime (callerTime i) now\<rparr>) s
            in if info_root s \<noteq> 0 then
                 (let s = store (info_root s) (\<lambda>i. i\<lparr>previous_p := stat\<rparr>) s;
                      s = store stat (\<lambda>i. i\<lparr>next_p := info_root s\<rparr>) s;
                      s = store stat (\<lambda>i. i\<lparr>previous_p := 0\<rparr>) s
                  in (result, s\<lparr>info_root := stat\<rparr>))
               else
                 (let s = store stat (\<lambda>i. i\<lparr>previous_p := 0\<rparr>) s;
                      s = store stat (\<lambda>i. i\<lparr>next_p := 0\<rparr>) s
                  in (result, s\<lparr>info_root := stat\<rparr>)))
         else (result, s))"

text \<open>\<open>deallocate(b)\<close>; the result is the caller's block afterwards and the new state.\<close>

definition stats_deallocate ::
  "unsigned \<Rightarrow> ('d, 'm) stats_delegate_scheme \<Rightarrow> 'd stats_state \<Rightarrow> block \<Rightarrow> block \<times> 'd stats_state" where
  "stats_deallocate Flags A s b =
     (let s = s\<lparr>numDeallocate := up Flags StatsOptions_numDeallocate (numDeallocate s)\<rparr>;
          s = s\<lparr>bytesDeallocated :=
                 add Flags StatsOptions_bytesDeallocated (bytesDeallocated s) (length_b b)\<rparr>;
          s = (if block_ok b \<and> HasPerAllocationState Flags then
                 (let stat = prefix_d A (allocator_s s) b;
                      s = (if previous_p (infos s stat) \<noteq> 0
                           then store (previous_p (infos s stat)) (\<lambda>i. i\<lparr>next_p := next_p (infos s stat)\<rparr>) s
                           else s);
                      s = (if next_p (infos s stat) \<noteq> 0
                           then store (next_p (infos s stat)) (\<lambda>i. i\<lparr>previous_p := previous_p (infos s stat)\<rparr>) s
                           else s)
                  in if stat = info_root s then s\<lparr>info_root := previous_p (infos s stat)\<rparr> else s)
               else s);
          (b', d) = dealloc_d A (allocator_s s) b
      in (b', s\<lparr>allocator_s := d\<rparr>))"

text \<open>
  \<open>reallocate(b, n)\<close>. \<open>delta\<close> is a signed 64-bit value; \<open>add\<close> takes it back into the
  unsigned counter, so both are the same word and only the test \<open>delta > 0\<close> is signed.
\<close>

definition stats_reallocate ::
  "unsigned \<Rightarrow> ('d, 'm) stats_delegate_scheme \<Rightarrow> 'd stats_state \<Rightarrow> block \<Rightarrow> size_t \<Rightarrow>
   bool \<times> block \<times> 'd stats_state" where
  "stats_reallocate Flags A s b n =
     (let originalBlock = b;
          s = s\<lparr>numReallocate := up Flags StatsOptions_numReallocate (numReallocate s)\<rparr>;
          (ok, b, d) = realloc_d A (allocator_s s) b n;
          s = s\<lparr>allocator_s := d\<rparr>
      in if \<not> ok then (False, b, s)
         else
           (let s = s\<lparr>numReallocateOK := up Flags StatsOptions_numReallocateOK (numReallocateOK s)\<rparr>;
                delta = length_b b - length_b originalBlock;
                s = (if ptr b = ptr originalBlock then
                       (let s = s\<lparr>numReallocateInPlace :=
                                     up Flags StatsOptions_numReallocateInPlace (numReallocateInPlace s)\<rparr>
                        in if 0 <s delta then
                             (let s = s\<lparr>bytesAllocated :=
                                           add Flags StatsOptions_bytesAllocated (bytesAllocated s) delta\<rparr>
                              in s\<lparr>bytesExpanded :=
                                     add Flags StatsOptions_bytesExpanded (bytesExpanded s) delta\<rparr>)
                           else
                             (let s = s\<lparr>bytesDeallocated :=
                                           add Flags StatsOptions_bytesDeallocated (bytesDeallocated s) (- delta)\<rparr>
                              in s\<lparr>bytesContracted :=
                                     add Flags StatsOptions_bytesContracted (bytesContracted s) (- delta)\<rparr>))
                     else
                       (let s = s\<lparr>bytesAllocated :=
                                     add Flags StatsOptions_bytesAllocated (bytesAllocated s) (length_b b)\<rparr>;
                            s = s\<lparr>bytesMoved :=
                                     add Flags StatsOptions_bytesMoved (bytesMoved s) (length_b originalBlock)\<rparr>
                        in s\<lparr>bytesDeallocated :=
                               add Flags StatsOptions_bytesDeallocated (bytesDeallocated s)
                                 (length_b originalBlock)\<rparr>))
            in (True, b, updateHighTide Flags s)))"

definition stats_owns ::
  "unsigned \<Rightarrow> ('d, 'm) stats_delegate_scheme \<Rightarrow> 'd stats_state \<Rightarrow> block \<Rightarrow> bool \<times> 'd stats_state" where
  "stats_owns Flags A s b =
     (let s = s\<lparr>numOwns := up Flags StatsOptions_numOwns (numOwns s)\<rparr>
      in (owns_d A (allocator_s s) b, s))"

definition stats_expand ::
  "unsigned \<Rightarrow> ('d, 'm) stats_delegate_scheme \<Rightarrow> 'd stats_state \<Rightarrow> block \<Rightarrow> size_t \<Rightarrow>
   bool \<times> block \<times> 'd stats_state" where
  "stats_expand Flags A s b delta =
     (let s = s\<lparr>numExpand := up Flags StatsOptions_numExpand (numExpand s)\<rparr>;
          oldLength = length_b b;
          (result, b, d) = expand_d A (allocator_s s) b delta;
          s = s\<lparr>allocator_s := d\<rparr>
      in if result then
           (let s = s\<lparr>numExpandOK := up Flags StatsOptions_numExpandOK (numExpandOK s)\<rparr>;
                s = s\<lparr>bytesExpanded :=
                       add Flags StatsOptions_bytesExpanded (bytesExpanded s) (length_b b - oldLength)\<rparr>;
                s = s\<lparr>bytesAllocated :=
                       add Flags StatsOptions_bytesAllocated (bytesAllocated s) (length_b b - oldLength)\<rparr>
            in (result, b, updateHighTide Flags s))
         else (result, b, s))"

text \<open>
  \<open>allocations()\<close> walked with its iterator from \<open>_root\<close> to the null end: the addresses
  of the records met. The walk follows \<open>next\<close> and need not end on a damaged list, so it
  takes a bound on its steps and returns \<open>None\<close> when the bound is used up.
\<close>

fun allocations :: "nat \<Rightarrow> (pointer \<Rightarrow> AllocationInfo) \<Rightarrow> pointer \<Rightarrow> pointer list option" where
  "allocations 0 m p = None"
| "allocations (Suc k) m p =
     (if p = 0 then Some [] else map_option ((#) p) (allocations k m (next_p (m p))))"

text \<open>
  A block handed to \<open>deallocate\<close> is one the allocator produced and that is still live,
  so its length is part of the bytes outstanding. \<open>stats_step\<close> runs one call on the
  state, \<open>stats_trace\<close> lists the states an instance goes through, and
  \<open>releases_within\<close> says that no \<open>deallocate\<close> of a run releases more bytes than are
  outstanding when it is called.
\<close>

datatype stats_op =
  Allocate size_t "string option" "string option" "32 word" nat
| Deallocate block
| Reallocate block size_t
| Expand block size_t
| Owns block

definition stats_step ::
  "unsigned \<Rightarrow> ('d, 'm) stats_delegate_scheme \<Rightarrow> 'd stats_state \<Rightarrow> stats_op \<Rightarrow> 'd stats_state" where
  "stats_step Flags A s x =
     (case x of
        Allocate n file function line now \<Rightarrow> snd (stats_allocate Flags A s n file function line now)
      | Deallocate b \<Rightarrow> snd (stats_deallocate Flags A s b)
      | Reallocate b n \<Rightarrow> snd (snd (stats_reallocate Flags A s b n))
      | Expand b delta \<Rightarrow> snd (snd (stats_expand Flags A s b delta))
      | Owns b \<Rightarrow> snd (stats_owns Flags A s b))"

fun stats_trace ::
  "unsigned \<Rightarrow> ('d, 'm) stats_delegate_scheme \<Rightarrow> 'd stats_state \<Rightarrow> stats_op list \<Rightarrow> 'd stats_state list" where
  "stats_trace Flags A s [] = [s]"
| "stats_trace Flags A s (x # xs) = s # stats_trace Flags A (stats_step Flags A s x) xs"

definition outstanding :: "'d stats_state \<Rightarrow> size_t" where
  "outstanding s = bytesAllocated s - bytesDeallocated s"

fun releases_within ::
  "unsigned \<Rightarrow> ('d, 'm) stats_delegate_scheme \<Rightarrow> 'd stats_state \<Rightarrow> stats_op list \<Rightarrow> bool" where
  "releases_within Flags A s [] = True"
| "releases_within Flags A s (x # xs) =
     ((case x of Deallocate b \<Rightarrow> length_b b \<le> outstanding s | _ \<Rightarrow> True) \<and>
      releases_within Flags A (stats_step Flags A s x) xs)"

section \<open>Sample delegates\<close>

text \<open>
  A leaf allocator to run the two allocators on: it hands out consecutive regions of
  exactly the requested length from a fixed supply and fails (with the empty block) on a
  request for 0 bytes or for more than is left. \<open>header\<close> bytes are kept in front of
  every block, as the affix allocator does for the allocation records, and \<open>prefix\<close> is
  the address of that header. It never reallocates or expands.
\<close>

record sample_state =
  brk :: pointer
  remaining :: size_t

definition sample_allocate :: "size_t \<Rightarrow> sample_state \<Rightarrow> size_t \<Rightarrow> block \<times> sample_state" where
  "sample_allocate header d n =
     (if n = 0 \<or> remaining d < n + header then (empty_block, d)
      else (\<lparr>ptr = brk d + header, length_b = n\<rparr>,
            d\<lparr>brk := brk d + header + n, remaining := remaining d - (n + header)\<rparr>))"

definition sample_allocator :: "bool \<Rightarrow> size_t \<Rightarrow> sample_state stats_delegate" where
  "sample_allocator truncated header =
     \<lparr>alloc_d = sample_allocate header,
      dealloc_d = (\<lambda>d b. (empty_block, d)),
      supports_truncated_deallocation = truncated,
      realloc_d = (\<lambda>d b n. (False, b, d)),
      expand_d = (\<lambda>d b delta. (False, b, d)),
      owns_d = (\<lambda>d b. False),
      prefix_d = (\<lambda>d b. ptr b - header)\<rparr>"

text \<open>
  A free-list allocator is itself an allocator and can be the delegate of another one.
  With assertions compiled out \<open>freelist_allocate\<close> always returns a block, so the error
  branch below is not taken.
\<close>

definition freelist_allocator ::
  "freelist_config \<Rightarrow> ('d, 'm) allocator_scheme \<Rightarrow> ('d freelist_state) allocator" where
  "freelist_allocator c A =
     \<lparr>alloc_d = (\<lambda>s n. case freelist_allocate c A s n of Inr r \<Rightarrow> r | Inl e \<Rightarrow> (empty_block, s)),
      dealloc_d = freelist_deallocate c A,
      supports_truncated_deallocation = supports_truncated_deallocation A\<rparr>"

definition zero_info :: AllocationInfo where
  "zero_info = \<lparr>callerSize = 0, callerFile = None, callerFunction = None, callerLine = 0,
                callerTime = 0, previous_p = 0, next_p = 0\<rparr>"

text \<open>Sample values: a configuration with bounds 8 and 16, a supply of 1024 bytes at 4096.\<close>

definition sample_config :: "unsigned \<Rightarrow> unsigned \<Rightarrow> freelist_config" where
  "sample_config pool batch =
     \<lparr>lowerBound = 8, upperBound = 16, PoolSize = pool, NumberOfBatchAllocations = batch,
      assertions = True\<rparr>"

definition sample_supply :: sample_state where
  "sample_supply = \<lparr>brk = 4096, remaining = 1024\<rparr>"

text \<open>
  Two configurations without batching, with the bounds 8 and 32, and 8 and 64, for a
  free-list allocator whose delegate is another free-list allocator.
\<close>

definition narrow_config :: freelist_config where
  "narrow_config =
     \<lparr>lowerBound = 8, upperBound = 32, PoolSize = 4, NumberOfBatchAllocations = 1,
      assertions = False\<rparr>"

definition wide_config :: freelist_config where
  "wide_config =
     \<lparr>lowerBound = 8, upperBound = 64, PoolSize = 4, NumberOfBatchAllocations = 1,
      assertions = False\<rparr>"

text \<open>
  The flags and the run of the high-tide example: allocate 100, allocate 50, deallocate
  the first block (the sample delegate places it at 4096), allocate 200.
\<close>

definition tide_flags :: unsigned where
  "tide_flags =
     StatsOptions_bytesAllocated OR StatsOptions_bytesDeallocated OR StatsOptions_bytesHighTide"

definition tide_run :: "stats_op list" where
  "tide_run =
     [Allocate 100 None None 0 0, Allocate 50 None None 0 0,
      Deallocate \<lparr>ptr = 4096, length_b = 100\<rparr>, Allocate 200 None None 0 0]"

section \<open>Evaluation rules\<close>

lemmas StatsOptions_defs =
  StatsOptions_numOwns_def StatsOptions_numAllocate_def StatsOptions_numAllocateOK_def
  StatsOptions_numExpand_def StatsOptions_numExpandOK_def StatsOptions_numReallocate_def
  StatsOptions_numReallocateOK_def StatsOptions_numReallocateInPlace_def
  StatsOptions_numDeallocate_def StatsOptions_numDeallocateAll_def
  StatsOptions_bytesAllocated_def StatsOptions_bytesDeallocated_def
  StatsOptions_bytesExpanded_def StatsOptions_bytesContracted_def StatsOptions_bytesMoved_def
  StatsOptions_bytesSlack_def StatsOptions_bytesHighTide_def StatsOptions_callerSize_def
  StatsOptions_callerFile_def StatsOptions_callerFunction_def StatsOptions_callerLine_def
  StatsOptions_callerTime_def

lemmas freelist_eval =
  freelist_allocate_def freelist_deallocate_def freelist_owns_def delegate_allocate_def
  delegate_deallocate_def push_def pop_def block_ok_def empty_block_def reset_def
  freelist_init_def sample_allocator_def sample_allocate_def batch_push.simps fill_loop.simps
  freelist_allocator_def block_invariant_def sample_config_def sample_supply_def

lemma allocations_numeral:
  "allocations (numeral k) m p =
     (if p = 0 then Some [] else map_option ((#) p) (allocations (pred_numeral k) m (next_p (m p))))"
  by (simp add: numeral_eq_Suc)

lemmas stats_eval = allocations_numeral
  stats_allocate_def stats_deallocate_def HasPerAllocationState_def up_def upOK_def add_def
  set_opt_def updateHighTide_def store_def AllocatorWithStats_def StatsOptions_defs
  sample_allocator_def sample_allocate_def sample_supply_def block_ok_def empty_block_def
  zero_info_def Let_def

section \<open>Properties of the free-list allocator\<close>

subsection \<open>The two loops\<close>

text \<open>With room for every remaining sub-block, the batch loop pushes them all.\<close>

lemma batch_push_room:
  "length (root s) + (unat (NumberOfBatchAllocations c) - i) \<le> unat (PoolSize c) \<Longrightarrow>
   batch_push c A base blockSize i s =
     Inr (s\<lparr>root := rev (map (\<lambda>k. base + of_nat k * blockSize)
                             [i..<unat (NumberOfBatchAllocations c)]) @ root s\<rparr>)"
proof (induction c A base blockSize i s rule: batch_push.induct)
  case (1 c A base blockSize i s)
  show ?case
  proof (cases "i < unat (NumberOfBatchAllocations c)")
    case False
    then show ?thesis by (simp add: batch_push.simps)
  next
    case True
    with "1.prems" have room: "length (root s) < unat (PoolSize c)" by arith
    then have p: "push (unat (PoolSize c)) (base + of_nat i * blockSize) (root s)
                  = Some ((base + of_nat i * blockSize) # root s)"
      by (simp add: push_def)
    show ?thesis
      using True p "1.IH"(2) [OF True p] "1.prems"
      by (subst batch_push.simps) (simp add: upt_conv_Cons)
  qed
qed

lemma delegate_allocate_fst:
  "delegate_allocate A s m = (b, s') \<Longrightarrow> b = fst (alloc_d A (allocator_st s) m)"
  by (auto simp: delegate_allocate_def split: prod.splits)

text \<open>A block the other loop returns early is one the delegate returned for \<open>blockSize\<close>.\<close>

lemma fill_loop_delegate_block:
  "fill_loop c A blockSize i s = (Some b, s') \<Longrightarrow> \<exists>d. b = fst (alloc_d A d blockSize)"
proof (induction c A blockSize i s rule: fill_loop.induct)
  case (1 c A blockSize i s)
  show ?case
  proof (cases "i < unat (NumberOfBatchAllocations c - 1)")
    case False
    with "1.prems" show ?thesis by (simp add: fill_loop.simps)
  next
    case True
    obtain b1 s1 where da: "delegate_allocate A s blockSize = (b1, s1)"
      by (cases "delegate_allocate A s blockSize")
    show ?thesis
    proof (cases "push (unat (PoolSize c)) (ptr b1) (root s1)")
      case None
      with True da "1.prems"(1) have "b = b1"
        by (simp add: fill_loop.simps)
      with delegate_allocate_fst [OF da] show ?thesis by blast
    next
      case (Some r)
      with True da "1.prems" "1.IH" [OF True da [symmetric] refl Some] show ?thesis
        by (simp add: fill_loop.simps)
    qed
  qed
qed

text \<open>The return paths of \<open>allocate\<close> for a size within the bounds.\<close>

lemma freelist_allocate_pool_hit:
  assumes "lowerBound c \<le> n" "n \<le> upperBound c" "freelist_allocate c A s n = Inr (b, s')" "root s \<noteq> []"
  shows "length_b b = upperBound c"
  using assms
  by (auto simp: freelist_allocate_def pop_def split: if_splits list.splits)

lemma freelist_allocate_batch_path:
  assumes "lowerBound c \<le> n" "n \<le> upperBound c" "freelist_allocate c A s n = Inr (b, s')" "root s = []"
    "supports_truncated_deallocation A"
    "block_ok (fst (alloc_d A (allocator_st s) (upperBound c * ucast (NumberOfBatchAllocations c))))"
  shows "length_b b = upperBound c"
  using assms
  by (auto simp: freelist_allocate_def pop_def Let_def delegate_allocate_def split: if_splits prod.splits sum.splits)

lemma freelist_allocate_delegate_path:
  assumes "lowerBound c \<le> n" "n \<le> upperBound c" "freelist_allocate c A s n = Inr (b, s')" "root s = []"
    "\<not> (supports_truncated_deallocation A \<and>
    block_ok (fst (alloc_d A (allocator_st s) (upperBound c * ucast (NumberOfBatchAllocations c)))))"
  shows "\<exists>d. b = fst (alloc_d A d (upperBound c))"
proof (cases "supports_truncated_deallocation A")
  case True
  with assms show ?thesis
    by (auto simp: freelist_allocate_def pop_def Let_def split: if_splits prod.splits sum.splits
        dest!: delegate_allocate_fst)
next
  case False
  with assms show ?thesis
    by (auto simp: freelist_allocate_def pop_def Let_def split: if_splits prod.splits sum.splits option.splits
        dest!: delegate_allocate_fst fill_loop_delegate_block)
qed

lemma freelist_allocate_out_of_range:
  "\<not> (lowerBound c \<le> n \<and> n \<le> upperBound c) \<Longrightarrow> freelist_allocate c A s n = Inr (b, s') \<Longrightarrow>
   b = empty_block"
  by (auto simp: freelist_allocate_def split: if_splits)

lemma sample_allocator_exact:
  "\<forall>d m. block_ok (fst (alloc_d (sample_allocator t h) d m)) \<longrightarrow>
          length_b (fst (alloc_d (sample_allocator t h) d m)) = m"
  by (simp add: sample_allocator_def sample_allocate_def block_ok_def empty_block_def)

subsection \<open>Deallocating a block that is not owned\<close>

text \<open>
  C1 (as the code has it). For every non-empty block whose length lies outside the range
  from the lower to the upper bound, \<open>deallocate\<close> does nothing at all: the block is
  returned as it was, the pool is not modified, and the delegate is not called (its state
  and the log of calls to it are unchanged). The claim's forwarding of the block to the
  delegate does not happen: the guard \<open>b && owns(b)\<close> encloses the delegate call too.
\<close>

theorem freelist_deallocate_not_owned:
  assumes "block_ok b" and "length_b b < lowerBound c \<or> upperBound c < length_b b"
  shows "freelist_deallocate c A s b = (b, s)"
  using assms by (auto simp: freelist_deallocate_def freelist_owns_def)

theorem freelist_deallocate_not_owned_witness:
  "block_ok \<lparr>ptr = 64, length_b = 32\<rparr> \<and>
   upperBound (sample_config 4 2) < length_b \<lparr>ptr = 64, length_b = 32\<rparr> \<and>
   freelist_deallocate (sample_config 4 2) (sample_allocator False 0) (freelist_init sample_supply)
       \<lparr>ptr = 64, length_b = 32\<rparr>
     = (\<lparr>ptr = 64, length_b = 32\<rparr>, freelist_init sample_supply)"
proof -
  have ok: "block_ok \<lparr>ptr = 64, length_b = 32\<rparr>"
    by (simp add: block_ok_def)
  have out: "length_b \<lparr>ptr = 64, length_b = 32\<rparr> < lowerBound (sample_config 4 2) \<or>
             upperBound (sample_config 4 2) < length_b \<lparr>ptr = 64, length_b = 32\<rparr>"
    by (simp add: sample_config_def)
  show ?thesis
    using freelist_deallocate_not_owned [OF ok out] ok by (simp add: sample_config_def)
qed

text \<open>
  The claim as stated fails: for a block of 32 bytes and the bounds 8 and 16, what
  \<open>deallocate\<close> returns is not what forwarding the block to the delegate returns, and no
  call to the delegate is logged.
\<close>

theorem freelist_deallocate_not_owned_counterexample:
  "freelist_deallocate (sample_config 4 2) (sample_allocator False 0) (freelist_init sample_supply)
       \<lparr>ptr = 64, length_b = 32\<rparr>
     \<noteq> delegate_deallocate (sample_allocator False 0) (freelist_init sample_supply)
         \<lparr>ptr = 64, length_b = 32\<rparr> \<and>
   calls (snd (freelist_deallocate (sample_config 4 2) (sample_allocator False 0)
       (freelist_init sample_supply) \<lparr>ptr = 64, length_b = 32\<rparr>)) = []"
  by (simp add: freelist_eval)

subsection \<open>The Block invariant\<close>

text \<open>
  C4 (the code at a failing input). The delegate has no memory left, the batch size is 2
  and the pool has room. The first \<open>allocate(8)\<close> runs the loop for a delegate without
  truncated deallocation: the delegate's allocation fails, the null pointer of the empty
  block is pushed onto the pool all the same, and the caller gets the empty block. The
  second \<open>allocate(8)\<close> pops that null pointer and returns a block with a null pointer and
  length 16, which breaks the Block invariant.
\<close>

theorem freelist_allocate_null_block:
  "freelist_allocate (sample_config 4 2) (sample_allocator False 0)
       (freelist_init \<lparr>brk = 4096, remaining = 0\<rparr>) 8
     = Inr (empty_block,
            \<lparr>root = [0], allocator_st = \<lparr>brk = 4096, remaining = 0\<rparr>,
             calls = [DAllocate 16, DAllocate 16]\<rparr>) \<and>
   freelist_allocate (sample_config 4 2) (sample_allocator False 0)
       \<lparr>root = [0], allocator_st = \<lparr>brk = 4096, remaining = 0\<rparr>,
        calls = [DAllocate 16, DAllocate 16]\<rparr> 8
     = Inr (\<lparr>ptr = 0, length_b = 16\<rparr>,
            \<lparr>root = [], allocator_st = \<lparr>brk = 4096, remaining = 0\<rparr>,
             calls = [DAllocate 16, DAllocate 16]\<rparr>) \<and>
   \<not> block_invariant \<lparr>ptr = 0, length_b = 16\<rparr>"
  by (simp add: freelist_eval)

subsection \<open>The length of an allocated block\<close>

text \<open>
  C6 (as the code has it). Let \<open>allocate(n)\<close>, for \<open>n\<close> within the bounds, return a
  block. On a pool hit, and after a batch allocation that succeeded, the length of the
  block is exactly the upper bound, whatever the delegate is. On the other paths (the
  early return of the loop, and the single-block fallback of either branch) the block is
  the one the delegate returned for a request of \<open>upper\<close> bytes, passed on unchanged.
  So a non-empty block returned is never shorter than the upper bound when the delegate
  never returns less than it was asked for, and it has exactly the upper bound as its
  length when the delegate returns exactly what it was asked for.
\<close>

theorem freelist_allocate_length:
  assumes rng: "lowerBound c \<le> n" "n \<le> upperBound c"
    and res: "freelist_allocate c A s n = Inr (b, s')"
  shows "(root s \<noteq> [] \<longrightarrow> length_b b = upperBound c) \<and>
         (root s = [] \<and> supports_truncated_deallocation A \<and>
          block_ok (fst (alloc_d A (allocator_st s)
                      (upperBound c * ucast (NumberOfBatchAllocations c)))) \<longrightarrow>
            length_b b = upperBound c) \<and>
         (root s = [] \<and>
          \<not> (supports_truncated_deallocation A \<and>
             block_ok (fst (alloc_d A (allocator_st s)
                         (upperBound c * ucast (NumberOfBatchAllocations c))))) \<longrightarrow>
            (\<exists>d. b = fst (alloc_d A d (upperBound c)))) \<and>
         (block_ok b \<and>
          (\<forall>d m. block_ok (fst (alloc_d A d m)) \<longrightarrow> m \<le> length_b (fst (alloc_d A d m))) \<longrightarrow>
            upperBound c \<le> length_b b) \<and>
         (block_ok b \<and>
          (\<forall>d m. block_ok (fst (alloc_d A d m)) \<longrightarrow> length_b (fst (alloc_d A d m)) = m) \<longrightarrow>
            length_b b = upperBound c)"
proof -
  have paths: "length_b b = upperBound c \<or> (\<exists>d. b = fst (alloc_d A d (upperBound c)))"
    using freelist_allocate_pool_hit [OF rng res] freelist_allocate_batch_path [OF rng res]
      freelist_allocate_delegate_path [OF rng res]
    by blast
  show ?thesis
  proof (intro conjI impI)
    assume "root s \<noteq> []"
    then show "length_b b = upperBound c" by (rule freelist_allocate_pool_hit [OF rng res])
  next
    assume "root s = [] \<and> supports_truncated_deallocation A \<and>
          block_ok (fst (alloc_d A (allocator_st s)
                      (upperBound c * ucast (NumberOfBatchAllocations c))))"
    then show "length_b b = upperBound c"
      using freelist_allocate_batch_path [OF rng res] by blast
  next
    assume "root s = [] \<and>
          \<not> (supports_truncated_deallocation A \<and>
             block_ok (fst (alloc_d A (allocator_st s)
                         (upperBound c * ucast (NumberOfBatchAllocations c)))))"
    then show "\<exists>d. b = fst (alloc_d A d (upperBound c))"
      using freelist_allocate_delegate_path [OF rng res] by blast
  next
    assume "block_ok b \<and>
          (\<forall>d m. block_ok (fst (alloc_d A d m)) \<longrightarrow> m \<le> length_b (fst (alloc_d A d m)))"
    with paths show "upperBound c \<le> length_b b" by auto
  next
    assume "block_ok b \<and>
          (\<forall>d m. block_ok (fst (alloc_d A d m)) \<longrightarrow> length_b (fst (alloc_d A d m)) = m)"
    with paths show "length_b b = upperBound c" by auto
  qed
qed

theorem freelist_allocate_length_witness:
  "freelist_allocate (sample_config 4 2) (sample_allocator False 0)
       \<lparr>root = [4096], allocator_st = sample_supply, calls = []\<rparr> 8
     = Inr (\<lparr>ptr = 4096, length_b = 16\<rparr>,
            \<lparr>root = [], allocator_st = sample_supply, calls = []\<rparr>) \<and>
   length_b \<lparr>ptr = 4096, length_b = 16\<rparr> = upperBound (sample_config 4 2) \<and>
   freelist_allocate (sample_config 4 3) (sample_allocator True 0) (freelist_init sample_supply) 8
     = Inr (\<lparr>ptr = 4096, length_b = 16\<rparr>,
            \<lparr>root = [4128, 4112], allocator_st = \<lparr>brk = 4144, remaining = 976\<rparr>,
             calls = [DAllocate 48]\<rparr>) \<and>
   length_b \<lparr>ptr = 4096, length_b = 16\<rparr> = upperBound (sample_config 4 3) \<and>
   freelist_allocate (sample_config 4 2) (sample_allocator False 0) (freelist_init sample_supply) 8
     = Inr (\<lparr>ptr = 4112, length_b = 16\<rparr>,
            \<lparr>root = [4096], allocator_st = \<lparr>brk = 4128, remaining = 992\<rparr>,
             calls = [DAllocate 16, DAllocate 16]\<rparr>) \<and>
   (\<exists>d. \<lparr>ptr = 4112, length_b = 16\<rparr> = fst (alloc_d (sample_allocator False 0) d 16)) \<and>
   length_b \<lparr>ptr = 4112, length_b = 16\<rparr> = upperBound (sample_config 4 2) \<and>
   freelist_allocate narrow_config (freelist_allocator wide_config (sample_allocator False 0))
       (freelist_init (freelist_init sample_supply)) 8
     = Inr (\<lparr>ptr = 4096, length_b = 64\<rparr>,
            \<lparr>root = [],
             allocator_st = \<lparr>root = [], allocator_st = \<lparr>brk = 4160, remaining = 960\<rparr>,
                             calls = [DAllocate 64]\<rparr>,
             calls = [DAllocate 32]\<rparr>) \<and>
   (\<exists>d. \<lparr>ptr = 4096, length_b = 64\<rparr> =
          fst (alloc_d (freelist_allocator wide_config (sample_allocator False 0)) d 32)) \<and>
   upperBound narrow_config \<le> length_b \<lparr>ptr = 4096, length_b = 64\<rparr>"
proof -
  have rng2: "lowerBound (sample_config 4 2) \<le> 8" "8 \<le> upperBound (sample_config 4 2)"
    and rng3: "lowerBound (sample_config 4 3) \<le> 8" "8 \<le> upperBound (sample_config 4 3)"
    and rngn: "lowerBound narrow_config \<le> 8" "8 \<le> upperBound narrow_config"
    by (simp_all add: sample_config_def narrow_config_def)
  \<comment> \<open>a pool hit\<close>
  have hit: "freelist_allocate (sample_config 4 2) (sample_allocator False 0)
       \<lparr>root = [4096], allocator_st = sample_supply, calls = []\<rparr> 8
     = Inr (\<lparr>ptr = 4096, length_b = 16\<rparr>,
            \<lparr>root = [], allocator_st = sample_supply, calls = []\<rparr>)"
    by (simp add: freelist_eval)
  from freelist_allocate_length [OF rng2 hit]
  have hit_len: "length_b \<lparr>ptr = 4096, length_b = 16\<rparr> = upperBound (sample_config 4 2)"
    by simp
  \<comment> \<open>a batch allocation\<close>
  have batch: "freelist_allocate (sample_config 4 3) (sample_allocator True 0)
       (freelist_init sample_supply) 8
     = Inr (\<lparr>ptr = 4096, length_b = 16\<rparr>,
            \<lparr>root = [4128, 4112], allocator_st = \<lparr>brk = 4144, remaining = 976\<rparr>,
             calls = [DAllocate 48]\<rparr>)"
    by (simp add: freelist_eval)
  have batch_hyp: "root (freelist_init sample_supply) = [] \<and>
      supports_truncated_deallocation (sample_allocator True 0) \<and>
      block_ok (fst (alloc_d (sample_allocator True 0) (allocator_st (freelist_init sample_supply))
         (upperBound (sample_config 4 3) * ucast (NumberOfBatchAllocations (sample_config 4 3)))))"
    by (simp add: freelist_eval)
  from freelist_allocate_length [OF rng3 batch] batch_hyp
  have batch_len: "length_b \<lparr>ptr = 4096, length_b = 16\<rparr> = upperBound (sample_config 4 3)"
    by blast
  \<comment> \<open>the single-block fallback, over a delegate that returns what it is asked for\<close>
  have fb: "freelist_allocate (sample_config 4 2) (sample_allocator False 0)
       (freelist_init sample_supply) 8
     = Inr (\<lparr>ptr = 4112, length_b = 16\<rparr>,
            \<lparr>root = [4096], allocator_st = \<lparr>brk = 4128, remaining = 992\<rparr>,
             calls = [DAllocate 16, DAllocate 16]\<rparr>)"
    by (simp add: freelist_eval)
  have fb_hyp: "root (freelist_init sample_supply) = [] \<and>
      \<not> (supports_truncated_deallocation (sample_allocator False 0) \<and>
      block_ok (fst (alloc_d (sample_allocator False 0) (allocator_st (freelist_init sample_supply))
         (upperBound (sample_config 4 2) * ucast (NumberOfBatchAllocations (sample_config 4 2))))))"
    by (simp add: freelist_eval)
  have ok: "block_ok \<lparr>ptr = 4112, length_b = 16\<rparr>" by (simp add: block_ok_def)
  from freelist_allocate_length [OF rng2 fb] fb_hyp
  have fb_del: "\<exists>d. \<lparr>ptr = 4112, length_b = 16\<rparr> =
                  fst (alloc_d (sample_allocator False 0) d (upperBound (sample_config 4 2)))"
    by blast
  from freelist_allocate_length [OF rng2 fb] ok sample_allocator_exact [of False 0]
  have fb_len: "length_b \<lparr>ptr = 4112, length_b = 16\<rparr> = upperBound (sample_config 4 2)"
    by blast
  \<comment> \<open>the single-block fallback, over a free-list allocator with a larger upper bound\<close>
  let ?W = "freelist_allocator wide_config (sample_allocator False 0)"
  have nested: "freelist_allocate narrow_config ?W (freelist_init (freelist_init sample_supply)) 8
     = Inr (\<lparr>ptr = 4096, length_b = 64\<rparr>,
            \<lparr>root = [],
             allocator_st = \<lparr>root = [], allocator_st = \<lparr>brk = 4160, remaining = 960\<rparr>,
                             calls = [DAllocate 64]\<rparr>,
             calls = [DAllocate 32]\<rparr>)"
    by (simp add: freelist_eval narrow_config_def wide_config_def)
  have nested_hyp: "root (freelist_init (freelist_init sample_supply)) = [] \<and>
      \<not> (supports_truncated_deallocation ?W \<and>
      block_ok (fst (alloc_d ?W (allocator_st (freelist_init (freelist_init sample_supply)))
         (upperBound narrow_config * ucast (NumberOfBatchAllocations narrow_config)))))"
    by (simp add: freelist_eval)
  from freelist_allocate_length [OF rngn nested] nested_hyp
  have nested_del: "\<exists>d. \<lparr>ptr = 4096, length_b = 64\<rparr> = fst (alloc_d ?W d (upperBound narrow_config))"
    by blast
  have sample_least: "\<forall>d m. block_ok (fst (alloc_d (sample_allocator False 0) d m)) \<longrightarrow>
          m \<le> length_b (fst (alloc_d (sample_allocator False 0) d m))"
    using sample_allocator_exact [of False 0] by simp
  have wide_least: "\<forall>d m. block_ok (fst (alloc_d ?W d m)) \<longrightarrow> m \<le> length_b (fst (alloc_d ?W d m))"
  proof (intro allI impI)
    fix d m
    assume okw: "block_ok (fst (alloc_d ?W d m))"
    show "m \<le> length_b (fst (alloc_d ?W d m))"
    proof (cases "freelist_allocate wide_config (sample_allocator False 0) d m")
      case (Inl e)
      with okw show ?thesis
        by (simp add: freelist_allocator_def block_ok_def empty_block_def)
    next
      case (Inr r)
      obtain b s' where r: "r = (b, s')" by (cases r)
      with Inr have res: "freelist_allocate wide_config (sample_allocator False 0) d m = Inr (b, s')"
        by simp
      with okw have okb: "block_ok b" by (simp add: freelist_allocator_def)
      have inr: "lowerBound wide_config \<le> m \<and> m \<le> upperBound wide_config"
      proof (rule ccontr)
        assume "\<not> (lowerBound wide_config \<le> m \<and> m \<le> upperBound wide_config)"
        from freelist_allocate_out_of_range [OF this res] okb show False
          by (simp add: block_ok_def empty_block_def)
      qed
      from freelist_allocate_length [OF conjunct1 [OF inr] conjunct2 [OF inr] res] okb sample_least
      have "upperBound wide_config \<le> length_b b" by blast
      with inr have "m \<le> length_b b" by (auto intro: order_trans)
      with res show ?thesis by (simp add: freelist_allocator_def)
    qed
  qed
  have okn: "block_ok \<lparr>ptr = 4096, length_b = 64\<rparr>" by (simp add: block_ok_def)
  from freelist_allocate_length [OF rngn nested] okn wide_least
  have nested_least: "upperBound narrow_config \<le> length_b \<lparr>ptr = 4096, length_b = 64\<rparr>"
    by blast
  from hit hit_len batch batch_len fb fb_del fb_len nested nested_del nested_least
  show ?thesis by (simp add: sample_config_def narrow_config_def)
qed

text \<open>
  The claim as stated, for every delegate, fails where the delegate returns more than it
  was asked for, as a free-list allocator does: a free-list allocator with the bounds 8
  and 32, over one with the bounds 8 and 64, returns a block of 64 bytes.
\<close>

theorem freelist_allocate_length_counterexample:
  "freelist_allocate
       \<lparr>lowerBound = 8, upperBound = 32, PoolSize = 4, NumberOfBatchAllocations = 1,
        assertions = False\<rparr>
       (freelist_allocator
          \<lparr>lowerBound = 8, upperBound = 64, PoolSize = 4, NumberOfBatchAllocations = 1,
           assertions = False\<rparr>
          (sample_allocator False 0))
       (freelist_init (freelist_init sample_supply)) 8
     = Inr (\<lparr>ptr = 4096, length_b = 64\<rparr>,
            \<lparr>root = [],
             allocator_st = \<lparr>root = [], allocator_st = \<lparr>brk = 4160, remaining = 960\<rparr>,
                             calls = [DAllocate 64]\<rparr>,
             calls = [DAllocate 32]\<rparr>) \<and>
   block_ok \<lparr>ptr = 4096, length_b = 64\<rparr> \<and>
   length_b \<lparr>ptr = 4096, length_b = 64\<rparr> \<noteq> (32 :: size_t)"
  by (simp add: freelist_eval)

subsection \<open>Batch allocation\<close>

text \<open>
  C7. The delegate supports truncated deallocation, the batch size \<open>N\<close> is greater than
  1, the bounds are configured, \<open>n\<close> is within them, the pool is empty, the delegate's
  allocation of \<open>upper * N\<close> bytes (a \<open>size_t\<close> product) succeeds, and the pool has room
  for \<open>N - 1\<close> entries. Then \<open>allocate(n)\<close> makes exactly one call to the delegate, the
  allocation of \<open>upper * N\<close> bytes, returns the first sub-block (the base address, with
  length \<open>upper\<close>), and leaves exactly \<open>N - 1\<close> entries in the pool: the addresses
  \<open>base + i * upper\<close> for \<open>i\<close> from 1 to \<open>N - 1\<close>.
\<close>

theorem freelist_allocate_batch:
  assumes trunc: "supports_truncated_deallocation A"
    and batch: "1 < NumberOfBatchAllocations c"
    and bounds: "\<not> (assertions c \<and> (lowerBound c = - 1 \<or> upperBound c = - 1))"
    and rng: "lowerBound c \<le> n" "n \<le> upperBound c"
    and empty: "root s = []"
    and ok: "block_ok (fst (alloc_d A (allocator_st s)
                 (upperBound c * ucast (NumberOfBatchAllocations c))))"
    and room: "unat (NumberOfBatchAllocations c) - 1 \<le> unat (PoolSize c)"
  shows "\<exists>s'. freelist_allocate c A s n =
            Inr (\<lparr>ptr = ptr (fst (alloc_d A (allocator_st s)
                          (upperBound c * ucast (NumberOfBatchAllocations c)))),
                  length_b = upperBound c\<rparr>, s') \<and>
          calls s' = calls s @ [DAllocate (upperBound c * ucast (NumberOfBatchAllocations c))] \<and>
          root s' = rev (map (\<lambda>i. ptr (fst (alloc_d A (allocator_st s)
                                      (upperBound c * ucast (NumberOfBatchAllocations c))))
                                 + of_nat i * upperBound c)
                           [1..<unat (NumberOfBatchAllocations c)]) \<and>
          length (root s') = unat (NumberOfBatchAllocations c) - 1"
proof -
  let ?size = "upperBound c * ucast (NumberOfBatchAllocations c)"
  obtain blk d where al: "alloc_d A (allocator_st s) ?size = (blk, d)"
    by (cases "alloc_d A (allocator_st s) ?size")
  let ?s1 = "s\<lparr>allocator_st := d, calls := calls s @ [DAllocate ?size]\<rparr>"
  have da: "delegate_allocate A s ?size = (blk, ?s1)"
    by (simp add: delegate_allocate_def al)
  have "length (root ?s1) + (unat (NumberOfBatchAllocations c) - 1) \<le> unat (PoolSize c)"
    using empty room by simp
  from batch_push_room [OF this, of A "ptr blk" "upperBound c"]
  have bp: "batch_push c A (ptr blk) (upperBound c) (Suc 0) ?s1 =
     Inr (?s1\<lparr>root := rev (map (\<lambda>k. ptr blk + of_nat k * upperBound c)
                              [Suc 0..<unat (NumberOfBatchAllocations c)]) @ root ?s1\<rparr>)"
    by simp
  from ok al have okb: "block_ok blk" by simp
  show ?thesis
    using trunc bounds rng empty okb
    by (simp add: freelist_allocate_def pop_def da bp al Let_def)
qed

theorem freelist_allocate_batch_witness:
  "supports_truncated_deallocation (sample_allocator True 0) \<and>
   1 < NumberOfBatchAllocations (sample_config 4 3) \<and>
   block_ok (fst (alloc_d (sample_allocator True 0) (allocator_st (freelist_init sample_supply))
               (upperBound (sample_config 4 3) * ucast (NumberOfBatchAllocations (sample_config 4 3))))) \<and>
   freelist_allocate (sample_config 4 3) (sample_allocator True 0) (freelist_init sample_supply) 8
     = Inr (\<lparr>ptr = 4096, length_b = 16\<rparr>,
            \<lparr>root = [4128, 4112], allocator_st = \<lparr>brk = 4144, remaining = 976\<rparr>,
             calls = [DAllocate 48]\<rparr>)"
proof -
  have h: "supports_truncated_deallocation (sample_allocator True 0)"
      "1 < NumberOfBatchAllocations (sample_config 4 3)"
      "\<not> (assertions (sample_config 4 3) \<and>
          (lowerBound (sample_config 4 3) = - 1 \<or> upperBound (sample_config 4 3) = - 1))"
      "lowerBound (sample_config 4 3) \<le> 8" "8 \<le> upperBound (sample_config 4 3)"
      "root (freelist_init sample_supply) = []"
      "block_ok (fst (alloc_d (sample_allocator True 0) (allocator_st (freelist_init sample_supply))
         (upperBound (sample_config 4 3) * ucast (NumberOfBatchAllocations (sample_config 4 3)))))"
      "unat (NumberOfBatchAllocations (sample_config 4 3)) - 1 \<le> unat (PoolSize (sample_config 4 3))"
    by (simp_all add: freelist_eval)
  from freelist_allocate_batch [OF h] obtain s' where
    r: "freelist_allocate (sample_config 4 3) (sample_allocator True 0) (freelist_init sample_supply) 8 =
          Inr (\<lparr>ptr = ptr (fst (alloc_d (sample_allocator True 0)
                   (allocator_st (freelist_init sample_supply))
                   (upperBound (sample_config 4 3) * ucast (NumberOfBatchAllocations (sample_config 4 3))))),
                length_b = upperBound (sample_config 4 3)\<rparr>, s')"
    by blast
  have "freelist_allocate (sample_config 4 3) (sample_allocator True 0) (freelist_init sample_supply) 8
     = Inr (\<lparr>ptr = 4096, length_b = 16\<rparr>,
            \<lparr>root = [4128, 4112], allocator_st = \<lparr>brk = 4144, remaining = 976\<rparr>,
             calls = [DAllocate 48]\<rparr>)"
    by (simp add: freelist_eval)
  with h r show ?thesis by simp
qed

subsection \<open>Reuse of a deallocated block\<close>

text \<open>
  C9 (as the code has it). Let an \<open>allocate\<close> return a non-empty block whose length lies
  within the bounds, and let the pool be below its capacity afterwards. Then
  \<open>deallocate\<close> of that block pushes its pointer onto the pool and empties the caller's
  block, and the next \<open>allocate\<close> of a size within the bounds returns the same pointer
  with the upper bound as its length; the state after it is the state after the first
  \<open>allocate\<close>, so the delegate is not called in between.
\<close>

theorem freelist_roundtrip:
  assumes first: "freelist_allocate c A s n = Inr (b, s1)"
    and ok: "block_ok b"
    and len: "lowerBound c \<le> length_b b" "length_b b \<le> upperBound c"
    and room: "length (root s1) < unat (PoolSize c)"
    and rng: "lowerBound c \<le> n'" "n' \<le> upperBound c"
  shows "freelist_deallocate c A s1 b = (empty_block, s1\<lparr>root := ptr b # root s1\<rparr>) \<and>
         freelist_allocate c A (s1\<lparr>root := ptr b # root s1\<rparr>) n' =
           Inr (\<lparr>ptr = ptr b, length_b = upperBound c\<rparr>, s1)"
proof -
  from first have "\<not> (assertions c \<and> (lowerBound c = - 1 \<or> upperBound c = - 1))"
    by (auto simp: freelist_allocate_def split: if_splits)
  with ok len room rng show ?thesis
    by (simp add: freelist_allocate_def freelist_deallocate_def freelist_owns_def push_def
        pop_def reset_def)
qed

theorem freelist_roundtrip_witness:
  "freelist_allocate (sample_config 4 2) (sample_allocator False 0) (freelist_init sample_supply) 8
     = Inr (\<lparr>ptr = 4112, length_b = 16\<rparr>,
            \<lparr>root = [4096], allocator_st = \<lparr>brk = 4128, remaining = 992\<rparr>,
             calls = [DAllocate 16, DAllocate 16]\<rparr>) \<and>
   freelist_deallocate (sample_config 4 2) (sample_allocator False 0)
       \<lparr>root = [4096], allocator_st = \<lparr>brk = 4128, remaining = 992\<rparr>,
        calls = [DAllocate 16, DAllocate 16]\<rparr> \<lparr>ptr = 4112, length_b = 16\<rparr>
     = (empty_block,
        \<lparr>root = [4112, 4096], allocator_st = \<lparr>brk = 4128, remaining = 992\<rparr>,
         calls = [DAllocate 16, DAllocate 16]\<rparr>) \<and>
   freelist_allocate (sample_config 4 2) (sample_allocator False 0)
       \<lparr>root = [4112, 4096], allocator_st = \<lparr>brk = 4128, remaining = 992\<rparr>,
        calls = [DAllocate 16, DAllocate 16]\<rparr> 9
     = Inr (\<lparr>ptr = 4112, length_b = 16\<rparr>,
            \<lparr>root = [4096], allocator_st = \<lparr>brk = 4128, remaining = 992\<rparr>,
             calls = [DAllocate 16, DAllocate 16]\<rparr>)"
proof -
  have first: "freelist_allocate (sample_config 4 2) (sample_allocator False 0)
                 (freelist_init sample_supply) 8
     = Inr (\<lparr>ptr = 4112, length_b = 16\<rparr>,
            \<lparr>root = [4096], allocator_st = \<lparr>brk = 4128, remaining = 992\<rparr>,
             calls = [DAllocate 16, DAllocate 16]\<rparr>)"
    by (simp add: freelist_eval)
  have h: "block_ok \<lparr>ptr = 4112, length_b = 16\<rparr>"
      "lowerBound (sample_config 4 2) \<le> length_b \<lparr>ptr = 4112, length_b = 16\<rparr>"
      "length_b \<lparr>ptr = 4112, length_b = 16\<rparr> \<le> upperBound (sample_config 4 2)"
      "length (root \<lparr>root = [4096], allocator_st = \<lparr>brk = 4128, remaining = 992\<rparr>,
             calls = [DAllocate 16, DAllocate 16]\<rparr>) < unat (PoolSize (sample_config 4 2))"
      "lowerBound (sample_config 4 2) \<le> 9" "9 \<le> upperBound (sample_config 4 2)"
    by (simp_all add: freelist_eval)
  from freelist_roundtrip [OF first h] first show ?thesis
    by (simp add: sample_config_def)
qed

text \<open>
  The claim as stated, for every pool of capacity 1 or more, fails when the pool is full
  at the time of \<open>deallocate\<close>. With capacity 1 and batch size 2 the first \<open>allocate\<close>
  fills the pool with the block at 4096 and returns the block at 4112; \<open>deallocate\<close> of
  that block finds the pool full and forwards it to the delegate; the next \<open>allocate\<close>
  returns the block at 4096.
\<close>

theorem freelist_roundtrip_counterexample:
  "freelist_allocate (sample_config 1 2) (sample_allocator False 0) (freelist_init sample_supply) 8
     = Inr (\<lparr>ptr = 4112, length_b = 16\<rparr>,
            \<lparr>root = [4096], allocator_st = \<lparr>brk = 4128, remaining = 992\<rparr>,
             calls = [DAllocate 16, DAllocate 16]\<rparr>) \<and>
   freelist_deallocate (sample_config 1 2) (sample_allocator False 0)
       \<lparr>root = [4096], allocator_st = \<lparr>brk = 4128, remaining = 992\<rparr>,
        calls = [DAllocate 16, DAllocate 16]\<rparr> \<lparr>ptr = 4112, length_b = 16\<rparr>
     = (empty_block,
        \<lparr>root = [4096], allocator_st = \<lparr>brk = 4128, remaining = 992\<rparr>,
         calls = [DAllocate 16, DAllocate 16, DDeallocate \<lparr>ptr = 4112, length_b = 16\<rparr>]\<rparr>) \<and>
   freelist_allocate (sample_config 1 2) (sample_allocator False 0)
       \<lparr>root = [4096], allocator_st = \<lparr>brk = 4128, remaining = 992\<rparr>,
        calls = [DAllocate 16, DAllocate 16, DDeallocate \<lparr>ptr = 4112, length_b = 16\<rparr>]\<rparr> 8
     = Inr (\<lparr>ptr = 4096, length_b = 16\<rparr>,
            \<lparr>root = [], allocator_st = \<lparr>brk = 4128, remaining = 992\<rparr>,
             calls = [DAllocate 16, DAllocate 16, DDeallocate \<lparr>ptr = 4112, length_b = 16\<rparr>]\<rparr>) \<and>
   (4096 :: pointer) \<noteq> 4112"
  by (simp add: freelist_eval)

section \<open>Properties of the statistics allocator\<close>

subsection \<open>The list of allocation records\<close>

text \<open>
  C2 (the code at a failing input). The only flag is \<open>callerSize\<close>; block A of 10 bytes
  and block B of 20 bytes are allocated, both successfully, and A is deallocated.
  \<open>HasPerAllocationState\<close> tests \<open>callerTime\<close>, \<open>callerFile\<close> and \<open>callerLine\<close> only, so
  with \<open>callerSize\<close> alone no record is written or linked: \<open>_root\<close> is null after the
  run, the list of allocations is empty, and no size is stored in front of B.
\<close>

theorem stats_callerSize_only_no_list:
  "let Flags = StatsOptions_callerSize;
       A = sample_allocator False 64;
       s0 = AllocatorWithStats sample_supply (\<lambda>a. zero_info);
       (a, s1) = stats_allocate Flags A s0 10 None None 0 0;
       (b, s2) = stats_allocate Flags A s1 20 None None 0 0;
       (a', s3) = stats_deallocate Flags A s2 a
   in \<not> HasPerAllocationState Flags \<and> block_ok a \<and> block_ok b \<and>
      info_root s3 = 0 \<and>
      allocations 3 (infos s3) (info_root s3) = Some [] \<and>
      callerSize (infos s3 (prefix_d A (allocator_s s3) b)) = 0"
  by (simp add: stats_eval)

text \<open>
  With \<open>callerFile\<close> set beside \<open>callerSize\<close> the same run keeps the records: the list
  is B alone, B's record holds the requested size 20 and has no links left.
\<close>

lemma stats_callerSize_callerFile_list:
  "let Flags = StatsOptions_callerSize OR StatsOptions_callerFile;
       A = sample_allocator False 64;
       s0 = AllocatorWithStats sample_supply (\<lambda>a. zero_info);
       (a, s1) = stats_allocate Flags A s0 10 None None 0 0;
       (b, s2) = stats_allocate Flags A s1 20 None None 0 0;
       (a', s3) = stats_deallocate Flags A s2 a
   in prefix_d A (allocator_s s3) b = 4170 \<and>
      allocations 3 (infos s3) (info_root s3) = Some [4170] \<and>
      callerSize (infos s3 4170) = 20 \<and>
      previous_p (infos s3 4170) = 0 \<and> next_p (infos s3 4170) = 0"
  by (simp add: stats_eval)

text \<open>
  C3 (the code at a failing input). The flag is \<open>callerFile\<close>, so records are kept.
  After allocating A and then B the list is B (at 4170), A (at 4096), with B at the head.
  Deallocating B, the head, sets \<open>_root\<close> to B's \<open>previous\<close> link, which is null, not to
  its successor A: the list is empty afterwards although A is still allocated.
\<close>

theorem stats_deallocate_head_loses_list:
  "let Flags = StatsOptions_callerFile;
       A = sample_allocator False 64;
       s0 = AllocatorWithStats sample_supply (\<lambda>a. zero_info);
       (a, s1) = stats_allocate Flags A s0 10 (Some ''f.cpp'') None 0 0;
       (b, s2) = stats_allocate Flags A s1 20 (Some ''g.cpp'') None 0 0;
       (b', s3) = stats_deallocate Flags A s2 b
   in HasPerAllocationState Flags \<and> block_ok b \<and>
      prefix_d A (allocator_s s2) a = 4096 \<and> prefix_d A (allocator_s s2) b = 4170 \<and>
      info_root s2 = 4170 \<and> next_p (infos s2 4170) = 4096 \<and>
      allocations 3 (infos s2) (info_root s2) = Some [4170, 4096] \<and>
      info_root s3 = 0 \<and>
      allocations 3 (infos s3) (info_root s3) = Some []"
  by (simp add: stats_eval)

subsection \<open>Deallocating an empty block\<close>

lemma add_zero: "add Flags option v 0 = v"
  by (simp add: add_def)

text \<open>
  C5 (as the code has it). For an empty block, \<open>deallocate\<close> of the free-list allocator
  is a no-op: the block, the pool, the delegate and the log of calls are as before.
  \<open>deallocate\<close> of the statistics allocator, for every flag configuration, leaves the
  list of records and every counter as they were, except that \<open>numDeallocate\<close> is
  counted up when its flag is set; it then passes the empty block on to its delegate.
\<close>

theorem deallocate_empty_block:
  assumes "\<not> block_ok b"
  shows "freelist_deallocate c A s b = (b, s) \<and>
         stats_deallocate Flags D t b =
           (fst (dealloc_d D (allocator_s t) b),
            t\<lparr>allocator_s := snd (dealloc_d D (allocator_s t) b),
               numDeallocate := up Flags StatsOptions_numDeallocate (numDeallocate t)\<rparr>)"
  using assms
  by (simp add: freelist_deallocate_def stats_deallocate_def block_ok_def add_zero Let_def
      split: prod.splits)

theorem deallocate_empty_block_witness:
  "\<not> block_ok empty_block \<and>
   freelist_deallocate (sample_config 4 2) (sample_allocator False 0) (freelist_init sample_supply)
       empty_block = (empty_block, freelist_init sample_supply) \<and>
   stats_deallocate StatsOptions_bytesDeallocated (sample_allocator False 0)
       (AllocatorWithStats sample_supply (\<lambda>a. zero_info)) empty_block
     = (empty_block, AllocatorWithStats sample_supply (\<lambda>a. zero_info))"
proof -
  have e: "\<not> block_ok empty_block"
    by (simp add: block_ok_def empty_block_def)
  from deallocate_empty_block [OF e, where c = "sample_config 4 2" and A = "sample_allocator False 0"
      and s = "freelist_init sample_supply" and Flags = StatsOptions_bytesDeallocated
      and D = "sample_allocator False 0" and t = "AllocatorWithStats sample_supply (\<lambda>a. zero_info)"] e
  show ?thesis
    by (simp add: up_def StatsOptions_defs sample_allocator_def AllocatorWithStats_def)
qed

text \<open>
  The claim as stated, that no counter changes for any flag configuration, fails with the
  flag \<open>numDeallocate\<close>: the call is counted although the block is empty.
\<close>

theorem deallocate_empty_block_counterexample:
  "\<not> block_ok empty_block \<and>
   numDeallocate (AllocatorWithStats sample_supply (\<lambda>a. zero_info)) = 0 \<and>
   numDeallocate (snd (stats_deallocate StatsOptions_numDeallocate (sample_allocator False 0)
       (AllocatorWithStats sample_supply (\<lambda>a. zero_info)) empty_block)) = 1"
  by (simp add: stats_eval)

subsection \<open>The high tide\<close>

lemma bytes_store [simp]:
  "bytesAllocated (store p f s) = bytesAllocated s"
  "bytesDeallocated (store p f s) = bytesDeallocated s"
  "bytesHighTide (store p f s) = bytesHighTide s"
  by (simp_all add: store_def)

lemma updateHighTide_bytes:
  "Flags AND StatsOptions_bytesHighTide \<noteq> 0 \<Longrightarrow>
   bytesHighTide (updateHighTide Flags s) = max (bytesHighTide s) (outstanding s)"
  "bytesAllocated (updateHighTide Flags s) = bytesAllocated s"
  "bytesDeallocated (updateHighTide Flags s) = bytesDeallocated s"
  by (auto simp: updateHighTide_def outstanding_def Let_def max_def)

lemma outstanding_updateHighTide: "outstanding (updateHighTide Flags s) = outstanding s"
  by (simp add: outstanding_def updateHighTide_bytes)

lemma stats_allocate_bytes:
  assumes "Flags AND StatsOptions_bytesHighTide \<noteq> 0" "Flags AND StatsOptions_bytesAllocated \<noteq> 0"
  shows "bytesAllocated (snd (stats_allocate Flags A s n f g l t)) =
           bytesAllocated s + length_b (fst (stats_allocate Flags A s n f g l t))"
    and "bytesDeallocated (snd (stats_allocate Flags A s n f g l t)) = bytesDeallocated s"
    and "bytesHighTide (snd (stats_allocate Flags A s n f g l t)) =
           max (bytesHighTide s)
             (bytesAllocated s + length_b (fst (stats_allocate Flags A s n f g l t)) - bytesDeallocated s)"
  using assms
  by (simp_all add: stats_allocate_def Let_def add_def updateHighTide_bytes outstanding_def
      split: prod.splits)

lemma stats_deallocate_bytes:
  assumes "Flags AND StatsOptions_bytesDeallocated \<noteq> 0"
  shows "bytesAllocated (snd (stats_deallocate Flags A s b)) = bytesAllocated s"
    and "bytesDeallocated (snd (stats_deallocate Flags A s b)) = bytesDeallocated s + length_b b"
    and "bytesHighTide (snd (stats_deallocate Flags A s b)) = bytesHighTide s"
  using assms
  by (simp_all add: stats_deallocate_def Let_def add_def split: prod.splits)

lemma stats_reallocate_tide:
  assumes "Flags AND StatsOptions_bytesHighTide \<noteq> 0" "outstanding s \<le> bytesHighTide s"
  shows "bytesHighTide (snd (snd (stats_reallocate Flags A s b n))) =
           max (bytesHighTide s) (outstanding (snd (snd (stats_reallocate Flags A s b n))))"
  using assms
  by (auto simp: stats_reallocate_def Let_def updateHighTide_bytes outstanding_updateHighTide
      outstanding_def max_def split: prod.splits)

lemma stats_expand_tide:
  assumes "Flags AND StatsOptions_bytesHighTide \<noteq> 0" "outstanding s \<le> bytesHighTide s"
  shows "bytesHighTide (snd (snd (stats_expand Flags A s b n))) =
           max (bytesHighTide s) (outstanding (snd (snd (stats_expand Flags A s b n))))"
  using assms
  by (auto simp: stats_expand_def Let_def updateHighTide_bytes outstanding_updateHighTide
      outstanding_def max_def split: prod.splits)

text \<open>
  One call keeps the high tide at the maximum of its old value and the bytes outstanding
  after the call. A \<open>deallocate\<close> does not update the high tide; it lowers the bytes
  outstanding when it releases no more than that.
\<close>

lemma stats_step_tide:
  assumes flags: "Flags AND StatsOptions_bytesHighTide \<noteq> 0"
      "Flags AND StatsOptions_bytesAllocated \<noteq> 0" "Flags AND StatsOptions_bytesDeallocated \<noteq> 0"
    and inv: "outstanding s \<le> bytesHighTide s"
    and rel: "case x of Deallocate b \<Rightarrow> length_b b \<le> outstanding s | _ \<Rightarrow> True"
  shows "bytesHighTide (stats_step Flags A s x) =
           max (bytesHighTide s) (outstanding (stats_step Flags A s x))"
proof (cases x)
  case (Allocate n f g l t)
  then show ?thesis
    by (simp add: stats_step_def stats_allocate_bytes [OF flags(1,2)] outstanding_def)
next
  case (Deallocate b)
  with rel have le: "length_b b \<le> outstanding s" by simp
  have "outstanding (stats_step Flags A s x) = outstanding s - length_b b"
    by (simp add: Deallocate stats_step_def stats_deallocate_bytes [OF flags(3)] outstanding_def)
  moreover from le have "outstanding s - length_b b \<le> outstanding s"
    by (rule word_sub_le)
  ultimately show ?thesis
    using inv
    by (auto simp: Deallocate stats_step_def stats_deallocate_bytes [OF flags(3)] max_def)
next
  case (Reallocate b n)
  then show ?thesis by (simp add: stats_step_def stats_reallocate_tide [OF flags(1) inv])
next
  case (Expand b n)
  then show ?thesis by (simp add: stats_step_def stats_expand_tide [OF flags(1) inv])
next
  case (Owns b)
  then show ?thesis
    using inv by (simp add: stats_step_def stats_owns_def outstanding_def Let_def max_def)
qed

lemma stats_trace_nonempty [simp]: "stats_trace Flags A s xs \<noteq> []"
  by (cases xs) simp_all

lemma stats_trace_tide:
  assumes flags: "Flags AND StatsOptions_bytesHighTide \<noteq> 0"
      "Flags AND StatsOptions_bytesAllocated \<noteq> 0" "Flags AND StatsOptions_bytesDeallocated \<noteq> 0"
  shows "outstanding s \<le> bytesHighTide s \<Longrightarrow> releases_within Flags A s xs \<Longrightarrow>
         bytesHighTide (last (stats_trace Flags A s xs)) =
           max (bytesHighTide s) (Max (outstanding ` set (stats_trace Flags A s xs)))"
proof (induction xs arbitrary: s)
  case Nil
  then show ?case by (simp add: max_def)
next
  case (Cons x xs)
  let ?s' = "stats_step Flags A s x"
  let ?T = "outstanding ` set (stats_trace Flags A ?s' xs)"
  from Cons.prems have rel: "case x of Deallocate b \<Rightarrow> length_b b \<le> outstanding s | _ \<Rightarrow> True"
    and rest: "releases_within Flags A ?s' xs" by simp_all
  have step: "bytesHighTide ?s' = max (bytesHighTide s) (outstanding ?s')"
    by (rule stats_step_tide [OF flags Cons.prems(1) rel])
  then have inv': "outstanding ?s' \<le> bytesHighTide ?s'" by simp
  have fin: "finite ?T" "?T \<noteq> {}" by simp_all
  have "outstanding ?s' \<in> ?T" by (cases xs) simp_all
  then have hd_le: "outstanding ?s' \<le> Max ?T" using fin by simp
  have "bytesHighTide (last (stats_trace Flags A s (x # xs))) =
        max (bytesHighTide ?s') (Max ?T)"
    using Cons.IH [OF inv' rest] by simp
  also have "\<dots> = max (bytesHighTide s) (Max ?T)"
    using step hd_le by (auto simp: max_def)
  also have "\<dots> = max (bytesHighTide s) (Max (outstanding ` set (stats_trace Flags A s (x # xs))))"
    using fin Cons.prems(1) by (auto simp: max_def)
  finally show ?case .
qed

lemma allocator_s_store [simp]: "allocator_s (store p f s) = allocator_s s"
  by (simp add: store_def)

lemma allocator_s_updateHighTide [simp]: "allocator_s (updateHighTide Flags s) = allocator_s s"
  by (simp add: updateHighTide_def Let_def)

lemma stats_allocate_delegate:
  "fst (stats_allocate Flags A s n f g l t) = fst (alloc_d A (allocator_s s) n)"
  "allocator_s (snd (stats_allocate Flags A s n f g l t)) = snd (alloc_d A (allocator_s s) n)"
  by (simp_all add: stats_allocate_def Let_def split: prod.splits)

lemma stats_deallocate_delegate:
  "allocator_s (snd (stats_deallocate Flags A s b)) = snd (dealloc_d A (allocator_s s) b)"
  by (simp add: stats_deallocate_def Let_def store_def split: prod.splits)

text \<open>
  C8 (as the code has it). The flags \<open>bytesHighTide\<close>, \<open>bytesAllocated\<close> and
  \<open>bytesDeallocated\<close> are set (any others may be set too). Take a new instance and any
  sequence of calls of \<open>allocate\<close>, \<open>deallocate\<close>, \<open>reallocate\<close>, \<open>expand\<close> and \<open>owns\<close>
  in which no \<open>deallocate\<close> releases more bytes than are outstanding when it is called
  (the length of its block is at most bytes allocated minus bytes deallocated). Then the
  high-tide counter after the sequence is the maximum of bytes allocated minus bytes
  deallocated over all the states the instance went through. In particular, after
  allocate(100), allocate(50), deallocate of the first block and allocate(200), where the
  delegate returns blocks of exactly 100, 50 and 200 bytes for the three requests, the
  high tide is 250.
\<close>

theorem stats_high_tide:
  assumes flags: "Flags AND StatsOptions_bytesHighTide \<noteq> 0"
      "Flags AND StatsOptions_bytesAllocated \<noteq> 0" "Flags AND StatsOptions_bytesDeallocated \<noteq> 0"
  shows "(releases_within Flags A (AllocatorWithStats d mem) xs \<longrightarrow>
            bytesHighTide (last (stats_trace Flags A (AllocatorWithStats d mem) xs)) =
            Max (outstanding ` set (stats_trace Flags A (AllocatorWithStats d mem) xs))) \<and>
         (let (b1, d1) = alloc_d A d 100;
              (b2, d2) = alloc_d A d1 50;
              (b1', d3) = dealloc_d A d2 b1;
              (b3, d4) = alloc_d A d3 200;
              s0 = AllocatorWithStats d mem;
              (first, s1) = stats_allocate Flags A s0 100 f1 g1 l1 t1;
              (second, s2) = stats_allocate Flags A s1 50 f2 g2 l2 t2;
              (first', s3) = stats_deallocate Flags A s2 first;
              (third, s4) = stats_allocate Flags A s3 200 f3 g3 l3 t3
          in length_b b1 = 100 \<and> length_b b2 = 50 \<and> length_b b3 = 200 \<longrightarrow>
             bytesHighTide s4 = 250)"
proof (intro conjI)
  let ?s0 = "AllocatorWithStats d mem"
  have z: "outstanding ?s0 = 0" "bytesHighTide ?s0 = 0"
    by (simp_all add: outstanding_def AllocatorWithStats_def)
  show "releases_within Flags A ?s0 xs \<longrightarrow>
        bytesHighTide (last (stats_trace Flags A ?s0 xs)) =
        Max (outstanding ` set (stats_trace Flags A ?s0 xs))"
  proof
    assume "releases_within Flags A ?s0 xs"
    from stats_trace_tide [OF flags _ this] z
    show "bytesHighTide (last (stats_trace Flags A ?s0 xs)) =
          Max (outstanding ` set (stats_trace Flags A ?s0 xs))"
      by (simp add: max_def)
  qed
next
  have z: "bytesAllocated (AllocatorWithStats d mem) = 0"
      "bytesDeallocated (AllocatorWithStats d mem) = 0" "bytesHighTide (AllocatorWithStats d mem) = 0"
      "allocator_s (AllocatorWithStats d mem) = d"
    by (simp_all add: AllocatorWithStats_def)
  show "let (b1, d1) = alloc_d A d 100;
              (b2, d2) = alloc_d A d1 50;
              (b1', d3) = dealloc_d A d2 b1;
              (b3, d4) = alloc_d A d3 200;
              s0 = AllocatorWithStats d mem;
              (first, s1) = stats_allocate Flags A s0 100 f1 g1 l1 t1;
              (second, s2) = stats_allocate Flags A s1 50 f2 g2 l2 t2;
              (first', s3) = stats_deallocate Flags A s2 first;
              (third, s4) = stats_allocate Flags A s3 200 f3 g3 l3 t3
          in length_b b1 = 100 \<and> length_b b2 = 50 \<and> length_b b3 = 200 \<longrightarrow>
             bytesHighTide s4 = 250"
    by (simp add: Let_def split_beta stats_allocate_bytes [OF flags(1,2)]
        stats_deallocate_bytes [OF flags(3)] stats_allocate_delegate stats_deallocate_delegate z)
qed

theorem stats_high_tide_witness:
  "tide_flags AND StatsOptions_bytesHighTide \<noteq> 0 \<and>
   tide_flags AND StatsOptions_bytesAllocated \<noteq> 0 \<and>
   tide_flags AND StatsOptions_bytesDeallocated \<noteq> 0 \<and>
   releases_within tide_flags (sample_allocator False 0)
     (AllocatorWithStats sample_supply (\<lambda>a. zero_info)) tide_run \<and>
   bytesHighTide (last (stats_trace tide_flags (sample_allocator False 0)
     (AllocatorWithStats sample_supply (\<lambda>a. zero_info)) tide_run)) = 250 \<and>
   Max (outstanding ` set (stats_trace tide_flags (sample_allocator False 0)
     (AllocatorWithStats sample_supply (\<lambda>a. zero_info)) tide_run)) = 250 \<and>
   (let (b1, d1) = alloc_d (sample_allocator False 0) sample_supply 100;
        (b2, d2) = alloc_d (sample_allocator False 0) d1 50;
        (b1', d3) = dealloc_d (sample_allocator False 0) d2 b1;
        (b3, d4) = alloc_d (sample_allocator False 0) d3 200
    in length_b b1 = 100 \<and> length_b b2 = 50 \<and> length_b b3 = 200) \<and>
   (let s0 = AllocatorWithStats sample_supply (\<lambda>a. zero_info);
        (first, s1) = stats_allocate tide_flags (sample_allocator False 0) s0 100 None None 0 0;
        (second, s2) = stats_allocate tide_flags (sample_allocator False 0) s1 50 None None 0 0;
        (first', s3) = stats_deallocate tide_flags (sample_allocator False 0) s2 first;
        (third, s4) = stats_allocate tide_flags (sample_allocator False 0) s3 200 None None 0 0
    in first = \<lparr>ptr = 4096, length_b = 100\<rparr> \<and> bytesHighTide s4 = 250)"
proof -
  have flags: "tide_flags AND StatsOptions_bytesHighTide \<noteq> 0"
      "tide_flags AND StatsOptions_bytesAllocated \<noteq> 0"
      "tide_flags AND StatsOptions_bytesDeallocated \<noteq> 0"
    by (simp_all add: tide_flags_def StatsOptions_defs)
  have rel: "releases_within tide_flags (sample_allocator False 0)
     (AllocatorWithStats sample_supply (\<lambda>a. zero_info)) tide_run"
    by (simp add: tide_run_def tide_flags_def stats_step_def outstanding_def stats_eval)
  have v: "bytesHighTide (last (stats_trace tide_flags (sample_allocator False 0)
     (AllocatorWithStats sample_supply (\<lambda>a. zero_info)) tide_run)) = 250"
    by (simp add: tide_run_def tide_flags_def stats_step_def outstanding_def stats_eval)
  have del: "let (b1, d1) = alloc_d (sample_allocator False 0) sample_supply 100;
        (b2, d2) = alloc_d (sample_allocator False 0) d1 50;
        (b1', d3) = dealloc_d (sample_allocator False 0) d2 b1;
        (b3, d4) = alloc_d (sample_allocator False 0) d3 200
    in length_b b1 = 100 \<and> length_b b2 = 50 \<and> length_b b3 = 200"
    by (simp add: stats_eval)
  have first: "fst (stats_allocate tide_flags (sample_allocator False 0)
      (AllocatorWithStats sample_supply (\<lambda>a. zero_info)) 100 None None 0 0) = \<lparr>ptr = 4096, length_b = 100\<rparr>"
    by (simp add: tide_flags_def stats_eval)
  note T = stats_high_tide [OF flags, of "sample_allocator False 0" sample_supply "\<lambda>a. zero_info" tide_run
      None None 0 0 None None 0 0 None None 0 0]
  from T rel
  have m: "bytesHighTide (last (stats_trace tide_flags (sample_allocator False 0)
     (AllocatorWithStats sample_supply (\<lambda>a. zero_info)) tide_run)) =
     Max (outstanding ` set (stats_trace tide_flags (sample_allocator False 0)
     (AllocatorWithStats sample_supply (\<lambda>a. zero_info)) tide_run))"
    by blast
  from T del
  have run: "let s0 = AllocatorWithStats sample_supply (\<lambda>a. zero_info);
        (first, s1) = stats_allocate tide_flags (sample_allocator False 0) s0 100 None None 0 0;
        (second, s2) = stats_allocate tide_flags (sample_allocator False 0) s1 50 None None 0 0;
        (first', s3) = stats_deallocate tide_flags (sample_allocator False 0) s2 first;
        (third, s4) = stats_allocate tide_flags (sample_allocator False 0) s3 200 None None 0 0
    in bytesHighTide s4 = 250"
    by (simp add: Let_def split_beta)
  from flags rel v m del run first show ?thesis
    by (simp add: Let_def split_beta)
qed

text \<open>
  The claim as stated, for any sequence of operations, fails for a \<open>deallocate\<close> of a
  block that was never allocated: on a new instance, deallocating a block of 100 bytes
  leaves the high tide at 0, while bytes allocated minus bytes deallocated, a \<open>size_t\<close>
  difference, is \<open>2^64 - 100\<close>.
\<close>

theorem stats_high_tide_counterexample:
  "\<not> releases_within tide_flags (sample_allocator False 0)
      (AllocatorWithStats sample_supply (\<lambda>a. zero_info)) [Deallocate \<lparr>ptr = 64, length_b = 100\<rparr>] \<and>
   bytesHighTide (last (stats_trace tide_flags (sample_allocator False 0)
      (AllocatorWithStats sample_supply (\<lambda>a. zero_info)) [Deallocate \<lparr>ptr = 64, length_b = 100\<rparr>])) = 0 \<and>
   Max (outstanding ` set (stats_trace tide_flags (sample_allocator False 0)
      (AllocatorWithStats sample_supply (\<lambda>a. zero_info)) [Deallocate \<lparr>ptr = 64, length_b = 100\<rparr>]))
     = 18446744073709551516 \<and>
   (0 :: size_t) \<noteq> 18446744073709551516"
  by (simp add: tide_flags_def stats_step_def outstanding_def stats_eval)

section \<open>Properties of NoAtomic\<close>

text \<open>
  C10. For every current value and every expected-value argument,
  \<open>compare_exchange_strong\<close> returns true, the value loaded afterwards is the new value
  \<open>v\<close> (also when the current value differs from the expected one), and the
  expected-value argument is left as the caller passed it.
\<close>

theorem noatomic_compare_exchange_strong_unconditional:
  "fst (compare_exchange_strong \<lparr>value_n = cur\<rparr> expected v) = True \<and>
   load (fst (snd (compare_exchange_strong \<lparr>value_n = cur\<rparr> expected v))) = v \<and>
   snd (snd (compare_exchange_strong \<lparr>value_n = cur\<rparr> expected v)) = expected"
  by (simp add: compare_exchange_strong_def load_def)

end
